theory Spec2Isabelle
  imports Main "HOL-Library.Word"
begin

unbundle bit_operations_syntax

text \<open>
  \<open>trust_time.js\<close> derives an address from the SHA-256 digest of a document, in the way
  a Bitcoin address is derived from a public key, and reads the time of the first
  transaction on that address from a ledger index. The program is modelled together
  with what it calls: buffers, the two digests, base 58, the read stream of a file, the
  JSON client and the exit of the process.
\<close>

section \<open>Buffers\<close>

text \<open>
  A Node \<open>Buffer\<close> is a sequence of octets. \<open>toString('hex')\<close> renders every octet
  as two lower-case hexadecimal digits.
\<close>

type_synonym byte = "8 word"
type_synonym buffer = "byte list"
type_synonym word32 = "32 word"

definition hex_digit :: "nat \<Rightarrow> char" where
  "hex_digit n = ''0123456789abcdef'' ! (n mod 16)"

definition hex_of_byte :: "byte \<Rightarrow> string" where
  "hex_of_byte b = [hex_digit (unat b div 16), hex_digit (unat b mod 16)]"

definition toString_hex :: "buffer \<Rightarrow> string" where
  "toString_hex buf = concat (map hex_of_byte buf)"

text \<open>\<open>buf.slice(start, end)\<close> for indices that are not negative.\<close>

definition buffer_slice :: "buffer \<Rightarrow> nat \<Rightarrow> nat \<Rightarrow> buffer" where
  "buffer_slice buf start fin = take (fin - start) (drop start buf)"

text \<open>
  \<open>source.copy(target, targetStart)\<close>: the octets of \<open>source\<close> overwrite \<open>target\<close>
  from \<open>targetStart\<close> on, as many as fit; the length of \<open>target\<close> does not change.
\<close>

definition buffer_copy :: "buffer \<Rightarrow> buffer \<Rightarrow> nat \<Rightarrow> buffer" where
  "buffer_copy source target targetStart =
     take targetStart target
       @ take (length target - targetStart) source
       @ drop (targetStart + length source) target"

text \<open>
  \<open>Buffer.concat(list, totalLength)\<close>: the buffers of \<open>list\<close> one after the other, cut
  or zero-filled to \<open>totalLength\<close> octets.
\<close>

definition Buffer_concat :: "buffer list \<Rightarrow> nat \<Rightarrow> buffer" where
  "Buffer_concat bufs totalLength =
     take totalLength (concat bufs) @ replicate (totalLength - length (concat bufs)) 0"

text \<open>
  \<open>new Buffer(size)\<close> hands out \<open>size\<close> octets of memory that is not initialised: what
  they hold is whatever the allocator left there, the parameter \<open>mem\<close>.
\<close>

definition new_Buffer :: "(nat \<Rightarrow> byte) \<Rightarrow> nat \<Rightarrow> buffer" where
  "new_Buffer mem n = map mem [0..<n]"

section \<open>The digests of the \<open>crypto\<close> module\<close>

subsection \<open>SHA-256 (FIPS 180-4)\<close>

definition rotr :: "nat \<Rightarrow> word32 \<Rightarrow> word32" where
  "rotr n x = drop_bit n x OR push_bit (32 - n) x"

definition sha_ch :: "word32 \<Rightarrow> word32 \<Rightarrow> word32 \<Rightarrow> word32" where
  "sha_ch x y z = (x AND y) XOR (NOT x AND z)"

definition sha_maj :: "word32 \<Rightarrow> word32 \<Rightarrow> word32 \<Rightarrow> word32" where
  "sha_maj x y z = (x AND y) XOR (x AND z) XOR (y AND z)"

definition big_sigma0 :: "word32 \<Rightarrow> word32" where
  "big_sigma0 x = rotr 2 x XOR rotr 13 x XOR rotr 22 x"

definition big_sigma1 :: "word32 \<Rightarrow> word32" where
  "big_sigma1 x = rotr 6 x XOR rotr 11 x XOR rotr 25 x"

definition small_sigma0 :: "word32 \<Rightarrow> word32" where
  "small_sigma0 x = rotr 7 x XOR rotr 18 x XOR drop_bit 3 x"

definition small_sigma1 :: "word32 \<Rightarrow> word32" where
  "small_sigma1 x = rotr 17 x XOR rotr 19 x XOR drop_bit 10 x"

definition sha256_K :: "word32 list" where
  "sha256_K = [
    0x428A2F98, 0x71374491, 0xB5C0FBCF, 0xE9B5DBA5, 0x3956C25B, 0x59F111F1, 0x923F82A4, 0xAB1C5ED5,
    0xD807AA98, 0x12835B01, 0x243185BE, 0x550C7DC3, 0x72BE5D74, 0x80DEB1FE, 0x9BDC06A7, 0xC19BF174,
    0xE49B69C1, 0xEFBE4786, 0x0FC19DC6, 0x240CA1CC, 0x2DE92C6F, 0x4A7484AA, 0x5CB0A9DC, 0x76F988DA,
    0x983E5152, 0xA831C66D, 0xB00327C8, 0xBF597FC7, 0xC6E00BF3, 0xD5A79147, 0x06CA6351, 0x14292967,
    0x27B70A85, 0x2E1B2138, 0x4D2C6DFC, 0x53380D13, 0x650A7354, 0x766A0ABB, 0x81C2C92E, 0x92722C85,
    0xA2BFE8A1, 0xA81A664B, 0xC24B8B70, 0xC76C51A3, 0xD192E819, 0xD6990624, 0xF40E3585, 0x106AA070,
    0x19A4C116, 0x1E376C08, 0x2748774C, 0x34B0BCB5, 0x391C0CB3, 0x4ED8AA4A, 0x5B9CCA4F, 0x682E6FF3,
    0x748F82EE, 0x78A5636F, 0x84C87814, 0x8CC70208, 0x90BEFFFA, 0xA4506CEB, 0xBEF9A3F7, 0xC67178F2]"

type_synonym sha256_state =
  "word32 \<times> word32 \<times> word32 \<times> word32 \<times> word32 \<times> word32 \<times> word32 \<times> word32"

definition sha256_H0 :: sha256_state where
  "sha256_H0 = (0x6A09E667, 0xBB67AE85, 0x3C6EF372, 0xA54FF53A,
                0x510E527F, 0x9B05688C, 0x1F83D9AB, 0x5BE0CD19)"

text \<open>Octets to 32-bit words and back, most significant octet first.\<close>

fun be_words :: "buffer \<Rightarrow> word32 list" where
  "be_words (a # b # c # d # rest) =
     (push_bit 24 (ucast a) OR push_bit 16 (ucast b) OR push_bit 8 (ucast c) OR ucast d)
       # be_words rest"
| "be_words _ = []"

definition be_bytes32 :: "word32 \<Rightarrow> buffer" where
  "be_bytes32 w = [ucast (drop_bit 24 w), ucast (drop_bit 16 w), ucast (drop_bit 8 w), ucast w]"

definition be_bytes64 :: "64 word \<Rightarrow> buffer" where
  "be_bytes64 w = map (\<lambda>i. ucast (drop_bit (8 * i) w)) [7, 6, 5, 4, 3, 2, 1, 0]"

text \<open>
  Padding: the octet \<open>0x80\<close>, zero octets up to 56 modulo 64, and the length of the
  message in bits as a 64-bit number.
\<close>

definition pad_zeros :: "nat \<Rightarrow> nat" where
  "pad_zeros len = (119 - len mod 64) mod 64"

definition sha256_pad :: "buffer \<Rightarrow> buffer" where
  "sha256_pad m = m @ [0x80] @ replicate (pad_zeros (length m)) 0
                    @ be_bytes64 (word_of_nat (8 * length m))"

fun blocks16 :: "nat \<Rightarrow> word32 list \<Rightarrow> word32 list list" where
  "blocks16 0 ws = []"
| "blocks16 (Suc n) ws = take 16 ws # blocks16 n (drop 16 ws)"

text \<open>
  The message schedule: \<open>win\<close> holds the sixteen words before the one computed next.
\<close>

definition sha256_next_word :: "word32 list \<Rightarrow> word32" where
  "sha256_next_word win =
     small_sigma1 (win ! 14) + (win ! 9) + small_sigma0 (win ! 1) + (win ! 0)"

fun sha256_extend :: "nat \<Rightarrow> word32 list \<Rightarrow> word32 list" where
  "sha256_extend 0 win = []"
| "sha256_extend (Suc n) win =
     sha256_next_word win # sha256_extend n (tl win @ [sha256_next_word win])"

definition sha256_schedule :: "word32 list \<Rightarrow> word32 list" where
  "sha256_schedule blk = blk @ sha256_extend 48 blk"

definition sha256_shift :: "sha256_state \<Rightarrow> word32 \<Rightarrow> word32 \<Rightarrow> sha256_state" where
  "sha256_shift st t1 t2 =
     (case st of (a, b, c, d, e, f, g, h) \<Rightarrow> (t1 + t2, a, b, c, d + t1, e, f, g))"

definition sha256_round :: "sha256_state \<Rightarrow> word32 \<times> word32 \<Rightarrow> sha256_state" where
  "sha256_round st kw =
     (case st of (a, b, c, d, e, f, g, h) \<Rightarrow>
        sha256_shift st (h + big_sigma1 e + sha_ch e f g + fst kw + snd kw)
                        (big_sigma0 a + sha_maj a b c))"

definition sha256_add :: "sha256_state \<Rightarrow> sha256_state \<Rightarrow> sha256_state" where
  "sha256_add s t =
     (case s of (a, b, c, d, e, f, g, h) \<Rightarrow>
      case t of (a', b', c', d', e', f', g', h') \<Rightarrow>
        (a + a', b + b', c + c', d + d', e + e', f + f', g + g', h + h'))"

definition sha256_block :: "sha256_state \<Rightarrow> word32 list \<Rightarrow> sha256_state" where
  "sha256_block hs blk =
     sha256_add hs (foldl sha256_round hs (zip sha256_K (sha256_schedule blk)))"

definition sha256_output :: "sha256_state \<Rightarrow> buffer" where
  "sha256_output st =
     (case st of (a, b, c, d, e, f, g, h) \<Rightarrow>
        concat (map be_bytes32 [a, b, c, d, e, f, g, h]))"

definition sha256_words :: "word32 list \<Rightarrow> sha256_state" where
  "sha256_words ws = foldl sha256_block sha256_H0 (blocks16 (length ws div 16) ws)"

definition crypto_SHA256 :: "buffer \<Rightarrow> buffer" where
  "crypto_SHA256 m = sha256_output (sha256_words (be_words (sha256_pad m)))"

subsection \<open>RIPEMD-160\<close>

definition rotl :: "nat \<Rightarrow> word32 \<Rightarrow> word32" where
  "rotl n x = push_bit n x OR drop_bit (32 - n) x"

text \<open>The five bitwise functions, numbered by round.\<close>

definition rmd_f :: "nat \<Rightarrow> word32 \<Rightarrow> word32 \<Rightarrow> word32 \<Rightarrow> word32" where
  "rmd_f i x y z =
     (if i = 0 then x XOR y XOR z
      else if i = 1 then (x AND y) OR (NOT x AND z)
      else if i = 2 then (x OR NOT y) XOR z
      else if i = 3 then (x AND z) OR (y AND NOT z)
      else x XOR (y OR NOT z))"

text \<open>
  One entry per round and line: the bitwise function, the added constant, and for each
  of the sixteen steps the index of the message word with the amount of the rotation.
\<close>

type_synonym rmd_round = "nat \<times> word32 \<times> (nat \<times> nat) list"

definition rmd_left :: "rmd_round list" where
  "rmd_left = [
    (0, 0x00000000, [(0, 11), (1, 14), (2, 15), (3, 12), (4, 5), (5, 8), (6, 7), (7, 9),
                     (8, 11), (9, 13), (10, 14), (11, 15), (12, 6), (13, 7), (14, 9), (15, 8)]),
    (1, 0x5A827999, [(7, 7), (4, 6), (13, 8), (1, 13), (10, 11), (6, 9), (15, 7), (3, 15),
                     (12, 7), (0, 12), (9, 15), (5, 9), (2, 11), (14, 7), (11, 13), (8, 12)]),
    (2, 0x6ED9EBA1, [(3, 11), (10, 13), (14, 6), (4, 7), (9, 14), (15, 9), (8, 13), (1, 15),
                     (2, 14), (7, 8), (0, 13), (6, 6), (13, 5), (11, 12), (5, 7), (12, 5)]),
    (3, 0x8F1BBCDC, [(1, 11), (9, 12), (11, 14), (10, 15), (0, 14), (8, 15), (12, 9), (4, 8),
                     (13, 9), (3, 14), (7, 5), (15, 6), (14, 8), (5, 6), (6, 5), (2, 12)]),
    (4, 0xA953FD4E, [(4, 9), (0, 15), (5, 5), (9, 11), (7, 6), (12, 8), (2, 13), (10, 12),
                     (14, 5), (1, 12), (3, 13), (8, 14), (11, 11), (6, 8), (15, 5), (13, 6)])]"

definition rmd_right :: "rmd_round list" where
  "rmd_right = [
    (4, 0x50A28BE6, [(5, 8), (14, 9), (7, 9), (0, 11), (9, 13), (2, 15), (11, 15), (4, 5),
                     (13, 7), (6, 7), (15, 8), (8, 11), (1, 14), (10, 14), (3, 12), (12, 6)]),
    (3, 0x5C4DD124, [(6, 9), (11, 13), (3, 15), (7, 7), (0, 12), (13, 8), (5, 9), (10, 11),
                     (14, 7), (15, 7), (8, 12), (12, 7), (4, 6), (9, 15), (1, 13), (2, 11)]),
    (2, 0x6D703EF3, [(15, 9), (5, 7), (1, 15), (3, 11), (7, 8), (14, 6), (6, 6), (9, 14),
                     (11, 12), (8, 13), (12, 5), (2, 14), (10, 13), (0, 13), (4, 7), (13, 5)]),
    (1, 0x7A6D76E9, [(8, 15), (6, 5), (4, 8), (1, 11), (3, 14), (11, 14), (15, 6), (0, 14),
                     (5, 6), (12, 9), (2, 12), (13, 9), (9, 12), (7, 5), (10, 15), (14, 8)]),
    (0, 0x00000000, [(12, 8), (15, 5), (10, 12), (4, 9), (1, 12), (5, 5), (8, 14), (7, 6),
                     (6, 8), (2, 13), (13, 6), (14, 5), (0, 15), (3, 13), (9, 11), (11, 11)])]"

type_synonym rmd_state = "word32 \<times> word32 \<times> word32 \<times> word32 \<times> word32"

definition rmd_H0 :: rmd_state where
  "rmd_H0 = (0x67452301, 0xEFCDAB89, 0x98BADCFE, 0x10325476, 0xC3D2E1F0)"

definition rmd_step ::
  "nat \<Rightarrow> word32 \<Rightarrow> word32 list \<Rightarrow> rmd_state \<Rightarrow> nat \<times> nat \<Rightarrow> rmd_state" where
  "rmd_step i k blk st rs =
     (case st of (a, b, c, d, e) \<Rightarrow>
        (e, rotl (snd rs) (a + rmd_f i b c d + blk ! fst rs + k) + e, b, rotl 10 c, d))"

definition rmd_round16 :: "word32 list \<Rightarrow> rmd_state \<Rightarrow> rmd_round \<Rightarrow> rmd_state" where
  "rmd_round16 blk st rd =
     (case rd of (i, k, steps) \<Rightarrow> foldl (rmd_step i k blk) st steps)"

definition rmd_line :: "rmd_round list \<Rightarrow> word32 list \<Rightarrow> rmd_state \<Rightarrow> rmd_state" where
  "rmd_line rounds blk st = foldl (rmd_round16 blk) st rounds"

definition rmd_combine :: "rmd_state \<Rightarrow> rmd_state \<Rightarrow> rmd_state \<Rightarrow> rmd_state" where
  "rmd_combine hs l r =
     (case hs of (h0, h1, h2, h3, h4) \<Rightarrow>
      case l of (a, b, c, d, e) \<Rightarrow>
      case r of (a', b', c', d', e') \<Rightarrow>
        (h1 + c + d', h2 + d + e', h3 + e + a', h4 + a + b', h0 + b + c'))"

definition rmd_block :: "rmd_state \<Rightarrow> word32 list \<Rightarrow> rmd_state" where
  "rmd_block hs blk = rmd_combine hs (rmd_line rmd_left blk hs) (rmd_line rmd_right blk hs)"

text \<open>Octets to 32-bit words and back, least significant octet first.\<close>

fun le_words :: "buffer \<Rightarrow> word32 list" where
  "le_words (a # b # c # d # rest) =
     (ucast a OR push_bit 8 (ucast b) OR push_bit 16 (ucast c) OR push_bit 24 (ucast d))
       # le_words rest"
| "le_words _ = []"

definition le_bytes32 :: "word32 \<Rightarrow> buffer" where
  "le_bytes32 w = [ucast w, ucast (drop_bit 8 w), ucast (drop_bit 16 w), ucast (drop_bit 24 w)]"

definition le_bytes64 :: "64 word \<Rightarrow> buffer" where
  "le_bytes64 w = map (\<lambda>i. ucast (drop_bit (8 * i) w)) [0, 1, 2, 3, 4, 5, 6, 7]"

definition rmd_pad :: "buffer \<Rightarrow> buffer" where
  "rmd_pad m = m @ [0x80] @ replicate (pad_zeros (length m)) 0
                 @ le_bytes64 (word_of_nat (8 * length m))"

definition rmd_output :: "rmd_state \<Rightarrow> buffer" where
  "rmd_output st =
     (case st of (a, b, c, d, e) \<Rightarrow> concat (map le_bytes32 [a, b, c, d, e]))"

definition rmd_words :: "word32 list \<Rightarrow> rmd_state" where
  "rmd_words ws = foldl rmd_block rmd_H0 (blocks16 (length ws div 16) ws)"

definition crypto_RIPEMD160 :: "buffer \<Rightarrow> buffer" where
  "crypto_RIPEMD160 m = rmd_output (rmd_words (le_words (rmd_pad m)))"

text \<open>
  A hash object of \<open>crypto.createHash\<close>: \<open>update\<close> feeds octets, \<open>digest\<close> hashes all
  that was fed, in the order it was fed.
\<close>

datatype algorithm = SHA256 | RIPEMD160

record hash_object =
  algorithm :: algorithm
  fed :: buffer

definition createHash :: "algorithm \<Rightarrow> hash_object" where
  "createHash a = \<lparr>algorithm = a, fed = []\<rparr>"

definition hash_update :: "hash_object \<Rightarrow> buffer \<Rightarrow> hash_object" where
  "hash_update h data = h\<lparr>fed := fed h @ data\<rparr>"

definition hash_digest :: "hash_object \<Rightarrow> buffer" where
  "hash_digest h =
     (case algorithm h of
        SHA256 \<Rightarrow> crypto_SHA256 (fed h)
      | RIPEMD160 \<Rightarrow> crypto_RIPEMD160 (fed h))"

section \<open>Base-58 (the \<open>bs58\<close> module)\<close>

text \<open>
  The buffer is read as one number, most significant octet first, and written in base 58
  with the alphabet below; every leading zero octet becomes one leading \<open>1\<close>.
\<close>

definition bs58_ALPHABET :: string where
  "bs58_ALPHABET = ''123456789ABCDEFGHJKLMNPQRSTUVWXYZabcdefghijkmnopqrstuvwxyz''"

text \<open>The digits of \<open>n\<close> in base \<open>b\<close>, most significant first; none for 0.\<close>

function digits_of :: "nat \<Rightarrow> nat \<Rightarrow> nat list" where
  "digits_of b n = (if n = 0 \<or> b < 2 then [] else digits_of b (n div b) @ [n mod b])"
  by pat_completeness auto
termination
  by (relation "measure snd") auto

declare digits_of.simps [simp del]

definition from_digits :: "nat \<Rightarrow> nat list \<Rightarrow> nat" where
  "from_digits b ds = foldl (\<lambda>n d. b * n + d) 0 ds"

definition leading_zeros :: "nat list \<Rightarrow> nat" where
  "leading_zeros ds = length (takeWhile (\<lambda>d. d = 0) ds)"

definition bs58_encode :: "buffer \<Rightarrow> string" where
  "bs58_encode buf =
     map (\<lambda>d. bs58_ALPHABET ! d)
       (replicate (leading_zeros (map unat buf)) 0
          @ digits_of 58 (from_digits 256 (map unat buf)))"

fun index_of :: "'a \<Rightarrow> 'a list \<Rightarrow> nat option" where
  "index_of x [] = None"
| "index_of x (y # ys) = (if x = y then Some 0 else map_option Suc (index_of x ys))"

text \<open>\<open>decode\<close> fails (\<open>None\<close>) on a character that is not in the alphabet.\<close>

definition bs58_decode :: "string \<Rightarrow> buffer option" where
  "bs58_decode str =
     (case those (map (\<lambda>c. index_of c bs58_ALPHABET) str) of
        None \<Rightarrow> None
      | Some ds \<Rightarrow>
          Some (map word_of_nat
                  (replicate (leading_zeros ds) 0 @ digits_of 256 (from_digits 58 ds))))"

section \<open>Storing a string in a buffer element\<close>

text \<open>
  \<open>buf[i] = v\<close> with a string \<open>v\<close> converts the string to a number and the number to an
  octet. Of the string forms only the ones without sign, fraction, exponent and white
  space are covered: the empty string, a hexadecimal literal \<open>0x...\<close> and a run of
  decimal digits; \<open>None\<close> stands for \<open>NaN\<close>, which is stored as 0.
\<close>

fun digit_values :: "string \<Rightarrow> string \<Rightarrow> nat list option" where
  "digit_values alphabet [] = Some []"
| "digit_values alphabet (c # cs) =
     (case index_of c alphabet of
        None \<Rightarrow> None
      | Some d \<Rightarrow> map_option ((#) d) (digit_values alphabet cs))"

definition lower_case :: "char \<Rightarrow> char" where
  "lower_case c =
     (case index_of c ''ABCDEF'' of None \<Rightarrow> c | Some i \<Rightarrow> ''abcdef'' ! i)"

definition StringToNumber :: "string \<Rightarrow> nat option" where
  "StringToNumber str =
     (if str = [] then Some 0
      else if take 2 str = ''0x'' \<or> take 2 str = ''0X'' then
        (if drop 2 str = [] then None
         else map_option (from_digits 16)
                (digit_values ''0123456789abcdef'' (map lower_case (drop 2 str))))
      else map_option (from_digits 10) (digit_values ''0123456789'' str))"

definition ToUint8 :: "nat option \<Rightarrow> byte" where
  "ToUint8 v = (case v of None \<Rightarrow> 0 | Some n \<Rightarrow> word_of_nat n)"

section \<open>\<open>trust_time.js\<close>\<close>

definition VERSION_BYTE :: string where
  "VERSION_BYTE = ''0x00''"

definition BLOCKCHAIN_HOST :: string where
  "BLOCKCHAIN_HOST = ''https://blockchain.info''"

record detail =
  documentSHA256 :: string
  hash3 :: string
  hash4 :: string
  hash5 :: string
  hash6 :: string
  checksum :: string
  hashWithChecksum :: string
  base58Encode :: string

record DocumentAddress =
  address :: string
  sha256 :: string
  detail :: detail

text \<open>\<open>TrustTime.prototype._ripemd160\<close>\<close>

definition ripemd160 :: "buffer \<Rightarrow> buffer" where
  "ripemd160 buffer = hash_digest (hash_update (createHash RIPEMD160) buffer)"

text \<open>
  \<open>TrustTime.prototype._sha256\<close> (primed: \<open>sha256\<close> is the field of \<open>DocumentAddress\<close>)
\<close>

definition sha256' :: "buffer \<Rightarrow> buffer" where
  "sha256' buffer = hash_digest (hash_update (createHash SHA256) buffer)"

text \<open>\<open>TrustTime.prototype._addVersionByte\<close>\<close>

definition addVersionByte :: "(nat \<Rightarrow> byte) \<Rightarrow> buffer \<Rightarrow> buffer" where
  "addVersionByte mem buffer =
     (let buf = new_Buffer mem (length buffer + 1);
          buf = buf[0 := ToUint8 (StringToNumber VERSION_BYTE)]
      in buffer_copy buffer buf 1)"

text \<open>\<open>TrustTime.prototype._addChecksum\<close>\<close>

definition addChecksum :: "buffer \<Rightarrow> buffer \<Rightarrow> buffer" where
  "addChecksum hash checksum' =
     Buffer_concat [hash, checksum'] (length hash + length checksum')"

text \<open>\<open>TrustTime.prototype.generateAddress\<close>\<close>

definition generateAddress :: "(nat \<Rightarrow> byte) \<Rightarrow> buffer \<Rightarrow> DocumentAddress" where
  "generateAddress mem docHash =
     (let hash3 = ripemd160 docHash;
          hash4 = addVersionByte mem hash3;
          hash5 = sha256' hash4;
          hash6 = sha256' hash5;
          checksum = buffer_slice hash6 0 4;
          hash4WithChecksum = addChecksum hash4 checksum;
          base58Encode = bs58_encode hash4WithChecksum;
          detail = \<lparr>documentSHA256 = toString_hex docHash,
                    hash3 = toString_hex hash3,
                    hash4 = toString_hex hash4,
                    hash5 = toString_hex hash5,
                    hash6 = toString_hex hash6,
                    checksum = toString_hex checksum,
                    hashWithChecksum = toString_hex hash4WithChecksum,
                    base58Encode = base58Encode\<rparr>
      in \<lparr>address = base58Encode, sha256 = documentSHA256 detail, detail = detail\<rparr>)"

subsection \<open>Callbacks\<close>

text \<open>
  The callbacks take \<open>(err, result)\<close>, with \<open>err\<close> a string or an error object.
  \<open>Failed e\<close> is the call \<open>callback(e)\<close>, \<open>Done r\<close> is \<open>callback(null, r)\<close>, and
  \<open>Thrown e\<close> is an exception that no caller catches, after which no callback runs.
\<close>

datatype error_object = Error_object string

datatype err = Str string | Obj error_object

datatype 'a outcome = Failed err | Done 'a | Thrown error_object

subsection \<open>Digest of a file\<close>

text \<open>
  What a read stream emits, in order: \<open>'data'\<close> events with the chunks, closed by
  \<open>'end'\<close>, or by \<open>'error'\<close> when the file cannot be opened or a read fails. The file
  system is the parameter \<open>fs\<close>, from paths to streams.
\<close>

datatype read_stream = Data buffer read_stream | End | Error error_object

text \<open>The octets a stream delivers, and whether it ends in an error.\<close>

fun stream_bytes :: "read_stream \<Rightarrow> buffer" where
  "stream_bytes (Data data rest) = data @ stream_bytes rest"
| "stream_bytes End = []"
| "stream_bytes (Error e) = []"

fun stream_fails :: "read_stream \<Rightarrow> bool" where
  "stream_fails (Data data rest) = stream_fails rest"
| "stream_fails End = False"
| "stream_fails (Error e) = True"

text \<open>
  The listeners of \<open>_sha256File\<close> at work. There is one for \<open>'data'\<close> and one for
  \<open>'end'\<close>; an \<open>'error'\<close> event without a listener is thrown by the emitter.
\<close>

fun emit_all :: "read_stream \<Rightarrow> hash_object \<Rightarrow> buffer outcome" where
  "emit_all (Data data rest) sha256sum = emit_all rest (hash_update sha256sum data)"
| "emit_all End sha256sum = Done (hash_digest sha256sum)"
| "emit_all (Error e) sha256sum = Thrown e"

text \<open>\<open>TrustTime.prototype._sha256File\<close>\<close>

definition sha256File :: "(string \<Rightarrow> read_stream) \<Rightarrow> string \<Rightarrow> buffer outcome" where
  "sha256File fs fileName = emit_all (fs fileName) (createHash SHA256)"

text \<open>
  \<open>TrustTime.prototype.generateAddressForFile\<close>: \<open>async.waterfall\<close> hands the result
  of a task to the next one and the first error to the final callback.
\<close>

definition generateAddressForFile ::
  "(nat \<Rightarrow> byte) \<Rightarrow> (string \<Rightarrow> read_stream) \<Rightarrow> string \<Rightarrow> DocumentAddress outcome" where
  "generateAddressForFile mem fs fileName =
     (case sha256File fs fileName of
        Failed e \<Rightarrow> Failed e
      | Thrown e \<Rightarrow> Thrown e
      | Done documentHash \<Rightarrow> Done (generateAddress mem documentHash))"

subsection \<open>The timestamp of an address\<close>

record tx =
  time :: int

record ledger_data =
  txs :: "tx list option"

record request =
  path :: string
  retry :: nat

text \<open>
  The network is the parameter \<open>createJsonClient\<close>: for the \<open>url\<close> a client is created
  with and the options of a \<open>get\<close>, the \<open>err\<close> and the \<open>data\<close> that the client passes to
  its callback. \<open>err\<close> is what the client reports as an error. The program looks at
  \<open>err\<close> and at \<open>data\<close> only and never at the body itself: a body that does not parse
  and that the client does not report through \<open>err\<close> reaches it as \<open>data\<close> without a
  list of transactions (the JSON client of \<open>restify\<close> logs the parse error and hands
  over the empty object).
\<close>

type_synonym json_client = "request \<Rightarrow> error_object option \<times> ledger_data option"

type_synonym restify = "string \<Rightarrow> json_client"

text \<open>
  Numbers as the comparator sees them. \<open>Number(a)\<close> of an object that has no numeric
  primitive value, as a transaction, is \<open>NaN\<close>, and a difference with \<open>NaN\<close> is \<open>NaN\<close>.
\<close>

datatype js_number = NaN | Num int

definition Number_of_tx :: "tx \<Rightarrow> js_number" where
  "Number_of_tx a = NaN"

fun js_minus :: "js_number \<Rightarrow> js_number \<Rightarrow> js_number" where
  "js_minus (Num x) (Num y) = Num (x - y)"
| "js_minus _ _ = NaN"

definition comparator :: "tx \<Rightarrow> tx \<Rightarrow> js_number" where
  "comparator a b = js_minus (Number_of_tx a) (Number_of_tx b)"

text \<open>
  \<open>Array.prototype.sort\<close> with a comparison function: a result that is \<open>NaN\<close> counts
  as 0, and elements that compare as equal keep their order.
\<close>

definition SortCompare :: "('a \<Rightarrow> 'a \<Rightarrow> js_number) \<Rightarrow> 'a \<Rightarrow> 'a \<Rightarrow> int" where
  "SortCompare comparefn x y = (case comparefn x y of NaN \<Rightarrow> 0 | Num v \<Rightarrow> v)"

fun sort_insert :: "('a \<Rightarrow> 'a \<Rightarrow> js_number) \<Rightarrow> 'a \<Rightarrow> 'a list \<Rightarrow> 'a list" where
  "sort_insert comparefn x [] = [x]"
| "sort_insert comparefn x (y # ys) =
     (if SortCompare comparefn x y \<le> 0 then x # y # ys
      else y # sort_insert comparefn x ys)"

definition array_sort :: "('a \<Rightarrow> 'a \<Rightarrow> js_number) \<Rightarrow> 'a list \<Rightarrow> 'a list" where
  "array_sort comparefn xs = foldr (sort_insert comparefn) xs []"

text \<open>A \<open>Date\<close> is its number of milliseconds since the epoch.\<close>

datatype date = Date int

text \<open>\<open>DocumentAddress.prototype.verifyTimestamp\<close>\<close>

definition verifyTimestamp :: "restify \<Rightarrow> DocumentAddress \<Rightarrow> date outcome" where
  "verifyTimestamp createJsonClient this =
     (let client = createJsonClient BLOCKCHAIN_HOST;
          options = \<lparr>path = ''/address/'' @ address this @ ''?format=json'', retry = 0\<rparr>
      in case client options of
           (Some e, data) \<Rightarrow> Failed (Obj e)
         | (None, None) \<Rightarrow> Failed (Str ''Address not seen in the network'')
         | (None, Some data) \<Rightarrow>
             (case txs data of
                None \<Rightarrow> Failed (Str ''Address not seen in the network'')
              | Some ts \<Rightarrow>
                  if length ts = 0 then Failed (Str ''Address not seen in the network'')
                  else (case array_sort comparator ts of
                          [] \<Rightarrow> Thrown (Error_object ''TypeError'')
                        | tx # rest \<Rightarrow> Done (Date (time tx * 1000)))))"

subsection \<open>The command line\<close>

text \<open>
  How the process ends: \<open>process.exit(code)\<close>, an exception nobody catches, or nothing
  left to do, which ends it with status 0.
\<close>

datatype process_end = Exit int | Uncaught error_object | Drained

text \<open>The status of the process; an uncaught exception gives 1.\<close>

fun exit_code :: "process_end \<Rightarrow> int" where
  "exit_code (Exit code) = code"
| "exit_code (Uncaught e) = 1"
| "exit_code Drained = 0"

record program =
  "file" :: "string option"
  verify :: bool

text \<open>
  \<open>program.help()\<close> belongs to the \<open>commander\<close> module: it writes the help text and
  ends the process itself, through \<open>process.exit()\<close> without a code.
\<close>

definition commander_help :: "process_end option" where
  "commander_help = Some (Exit 0)"

text \<open>
  The function that the command line passes to \<open>generateAddressForFile\<close>, applied to
  what that call comes to. After an exception nobody catches the function never runs
  and the exception ends the process.
\<close>

definition cli_callback ::
  "restify \<Rightarrow> program \<Rightarrow> DocumentAddress outcome \<Rightarrow> process_end" where
  "cli_callback createJsonClient program out =
     (case out of
        Thrown e \<Rightarrow> Uncaught e
      | Failed e \<Rightarrow> Drained
      | Done documentAddr \<Rightarrow>
          if verify program then
            (case verifyTimestamp createJsonClient documentAddr of
               Failed e \<Rightarrow> Exit 1
             | Done d \<Rightarrow> Exit 0
             | Thrown e \<Rightarrow> Uncaught e)
          else Drained)"

text \<open>
  The block under \<open>require.main === module\<close>; \<open>help\<close> is what \<open>program.help()\<close> does:
  it ends the process, or it returns (\<open>None\<close>). \<open>!program.file\<close> holds for an option
  that is absent and for the empty string.
\<close>

definition main ::
  "(nat \<Rightarrow> byte) \<Rightarrow> (string \<Rightarrow> read_stream) \<Rightarrow> restify \<Rightarrow> process_end option
     \<Rightarrow> program \<Rightarrow> process_end" where
  "main mem fs createJsonClient help program =
     (case file program of
        None \<Rightarrow> (case help of Some ended \<Rightarrow> ended | None \<Rightarrow> Exit 1)
      | Some fileName \<Rightarrow>
          if fileName = [] then (case help of Some ended \<Rightarrow> ended | None \<Rightarrow> Exit 1)
          else cli_callback createJsonClient program
                 (generateAddressForFile mem fs fileName))"

section \<open>The pipeline as specified\<close>

text \<open>
  The derivation in the words of the specification: the short hash, the version byte
  \<open>0x00\<close> in front, two rounds of SHA-256, their first four octets as the checksum
  behind, the whole in base 58.
\<close>

definition spec_h1 :: "buffer \<Rightarrow> buffer" where
  "spec_h1 digest = crypto_RIPEMD160 digest"

definition spec_h2 :: "buffer \<Rightarrow> buffer" where
  "spec_h2 digest = 0x00 # spec_h1 digest"

definition spec_h3 :: "buffer \<Rightarrow> buffer" where
  "spec_h3 digest = crypto_SHA256 (spec_h2 digest)"

definition spec_h4 :: "buffer \<Rightarrow> buffer" where
  "spec_h4 digest = crypto_SHA256 (spec_h3 digest)"

definition spec_checksum :: "buffer \<Rightarrow> buffer" where
  "spec_checksum digest = take 4 (spec_h4 digest)"

definition spec_h5 :: "buffer \<Rightarrow> buffer" where
  "spec_h5 digest = spec_h2 digest @ spec_checksum digest"

definition deriveAddress :: "buffer \<Rightarrow> string" where
  "deriveAddress digest = bs58_encode (spec_h5 digest)"

text \<open>What a reader of an address does with it: the payload and the trailing checksum.\<close>

definition strip_checksum :: "buffer \<Rightarrow> buffer" where
  "strip_checksum raw = take (length raw - 4) raw"

definition trailing_checksum :: "buffer \<Rightarrow> buffer" where
  "trailing_checksum raw = drop (length raw - 4) raw"

definition checksum_valid :: "string \<Rightarrow> bool" where
  "checksum_valid addr =
     (case bs58_decode addr of
        None \<Rightarrow> False
      | Some raw \<Rightarrow>
          take 4 (crypto_SHA256 (crypto_SHA256 (strip_checksum raw))) = trailing_checksum raw)"

section \<open>Properties\<close>

subsection \<open>Lengths of the digests\<close>

lemma length_sha256_output: "length (sha256_output st) = 32"
  by (simp add: sha256_output_def be_bytes32_def split: prod.split)

lemma length_crypto_SHA256 [simp]: "length (crypto_SHA256 m) = 32"
  by (simp add: crypto_SHA256_def length_sha256_output)

lemma length_rmd_output: "length (rmd_output st) = 20"
  by (simp add: rmd_output_def le_bytes32_def split: prod.split)

lemma length_crypto_RIPEMD160 [simp]: "length (crypto_RIPEMD160 m) = 20"
  by (simp add: crypto_RIPEMD160_def length_rmd_output)

subsection \<open>The steps of the pipeline\<close>

lemma version_byte_value: "ToUint8 (StringToNumber VERSION_BYTE) = 0"
  by code_simp

lemma addVersionByte_eq: "addVersionByte mem buffer = 0 # buffer"
  by (simp add: addVersionByte_def new_Buffer_def buffer_copy_def version_byte_value
      upt_conv_Cons Let_def del: upt_Suc)

lemma addChecksum_eq: "addChecksum hash c = hash @ c"
  by (simp add: addChecksum_def Buffer_concat_def)

lemma ripemd160_eq: "ripemd160 buffer = crypto_RIPEMD160 buffer"
  by (simp add: ripemd160_def hash_digest_def hash_update_def createHash_def)

lemma sha256'_eq: "sha256' buffer = crypto_SHA256 buffer"
  by (simp add: sha256'_def hash_digest_def hash_update_def createHash_def)

lemma generateAddress_eq:
  "generateAddress mem d =
     \<lparr>address = deriveAddress d, sha256 = toString_hex d,
      detail = \<lparr>documentSHA256 = toString_hex d,
                hash3 = toString_hex (spec_h1 d),
                hash4 = toString_hex (spec_h2 d),
                hash5 = toString_hex (spec_h3 d),
                hash6 = toString_hex (spec_h4 d),
                checksum = toString_hex (spec_checksum d),
                hashWithChecksum = toString_hex (spec_h5 d),
                base58Encode = deriveAddress d\<rparr>\<rparr>"
  by (simp add: generateAddress_def Let_def addVersionByte_eq addChecksum_eq ripemd160_eq
      sha256'_eq buffer_slice_def deriveAddress_def spec_h5_def spec_checksum_def spec_h4_def
      spec_h3_def spec_h2_def spec_h1_def)

subsection \<open>The comparator leaves the order as it is\<close>

lemma sort_insert_comparator: "sort_insert comparator x ys = x # ys"
  by (cases ys) (simp_all add: SortCompare_def comparator_def Number_of_tx_def)

lemma array_sort_comparator: "array_sort comparator ts = ts"
  by (induction ts) (simp_all add: array_sort_def sort_insert_comparator)

subsection \<open>Base 58 is read back as written\<close>

lemma digits_of_zero [simp]: "digits_of b 0 = []"
  by (simp add: digits_of.simps)

lemma digits_of_pos: "2 \<le> b \<Longrightarrow> 0 < n \<Longrightarrow> digits_of b n = digits_of b (n div b) @ [n mod b]"
  by (subst digits_of.simps) simp

lemma digits_of_bound: "2 \<le> b \<Longrightarrow> d \<in> set (digits_of b n) \<Longrightarrow> d < b"
proof (induction n arbitrary: d rule: less_induct)
  case (less n)
  show ?case
  proof (cases "n = 0")
    case True
    with less.prems show ?thesis by simp
  next
    case False
    with less.prems(1) have "digits_of b n = digits_of b (n div b) @ [n mod b]"
      by (simp add: digits_of_pos)
    with less.prems(2) have "d \<in> set (digits_of b (n div b)) \<or> d = n mod b"
      by auto
    moreover have "n div b < n" using False less.prems(1) by simp
    ultimately show ?thesis using less.IH less.prems(1) by auto
  qed
qed

lemma from_digits_snoc: "from_digits b (ds @ [d]) = b * from_digits b ds + d"
  by (simp add: from_digits_def)

lemma from_digits_of: "2 \<le> b \<Longrightarrow> from_digits b (digits_of b n) = n"
proof (induction n rule: less_induct)
  case (less n)
  show ?case
  proof (cases "n = 0")
    case True
    then show ?thesis by (simp add: from_digits_def)
  next
    case False
    have "n div b < n" using False less.prems by simp
    then have "from_digits b (digits_of b (n div b)) = n div b"
      using less.IH less.prems by blast
    then show ?thesis using False less.prems
      by (simp add: digits_of_pos from_digits_snoc)
  qed
qed

lemma digits_of_step:
  assumes "2 \<le> b" "d < b" "0 < b * m + d"
  shows "digits_of b (b * m + d) = digits_of b m @ [d]"
  using assms by (simp add: digits_of_pos)

lemma digits_of_nonempty: "2 \<le> b \<Longrightarrow> 0 < n \<Longrightarrow> digits_of b n \<noteq> []"
  by (simp add: digits_of_pos)

text \<open>a digit string without a leading zero is the one of its value\<close>
lemma digits_of_from:
  assumes "2 \<le> b" "\<forall>d \<in> set ds. d < b" "ds = [] \<or> hd ds \<noteq> 0"
  shows "digits_of b (from_digits b ds) = ds"
  using assms(2,3)
proof (induction ds rule: rev_induct)
  case Nil
  then show ?case by (simp add: from_digits_def)
next
  case (snoc d ds)
  have d: "d < b" using snoc.prems(1) by simp
  have ih: "digits_of b (from_digits b ds) = ds"
    using snoc by (cases ds) auto
  have pos: "0 < b * from_digits b ds + d"
  proof (cases ds)
    case Nil
    with snoc.prems(2) show ?thesis by simp
  next
    case (Cons x xs)
    with ih have "from_digits b ds \<noteq> 0" by (metis digits_of_zero list.distinct(1))
    with assms(1) show ?thesis by simp
  qed
  show ?case
    by (simp add: from_digits_snoc digits_of_step [OF assms(1) d pos] ih)
qed

lemma hd_digits_of: "2 \<le> b \<Longrightarrow> 0 < n \<Longrightarrow> hd (digits_of b n) \<noteq> 0"
proof (induction n rule: less_induct)
  case (less n)
  show ?case
  proof (cases "n div b = 0")
    case True
    then have "n mod b = n" using less.prems by (simp add: div_eq_0_iff)
    with True less.prems show ?thesis by (simp add: digits_of_pos)
  next
    case False
    then have "0 < n div b" by simp
    moreover have "n div b < n" using less.prems by simp
    ultimately have "hd (digits_of b (n div b)) \<noteq> 0" "digits_of b (n div b) \<noteq> []"
      using less.IH less.prems(1) digits_of_nonempty by blast+
    then show ?thesis using less.prems by (simp add: digits_of_pos)
  qed
qed

lemma from_digits_zeros: "from_digits b (replicate k 0 @ ds) = from_digits b ds"
proof -
  have "foldl (\<lambda>n d. b * n + d) 0 (replicate k 0) = 0"
    by (induction k) simp_all
  then show ?thesis by (simp add: from_digits_def)
qed

lemma leading_zeros_replicate:
  "ds = [] \<or> hd ds \<noteq> 0 \<Longrightarrow> leading_zeros (replicate k 0 @ ds) = k"
proof (induction k)
  case 0
  then show ?case by (cases ds) (auto simp: leading_zeros_def)
next
  case (Suc k)
  then show ?case by (simp add: leading_zeros_def)
qed

lemma split_leading_zeros:
  "ds = replicate (leading_zeros ds) 0 @ dropWhile (\<lambda>d. d = 0) ds"
proof -
  have "takeWhile (\<lambda>d. d = 0) ds = replicate (leading_zeros ds) 0"
    unfolding leading_zeros_def
    by (metis (mono_tags, lifting) replicate_eqI set_takeWhileD)
  then show ?thesis by (metis takeWhile_dropWhile_id)
qed

lemma hd_dropWhile_zero: "dropWhile (\<lambda>d. d = 0) ds = [] \<or> hd (dropWhile (\<lambda>d. d = (0::nat)) ds) \<noteq> 0"
  by (metis (mono_tags, lifting) hd_dropWhile)


lemma index_of_nth: "distinct xs \<Longrightarrow> i < length xs \<Longrightarrow> index_of (xs ! i) xs = Some i"
proof (induction xs arbitrary: i)
  case Nil
  then show ?case by simp
next
  case (Cons x xs)
  show ?case
  proof (cases i)
    case 0
    then show ?thesis by simp
  next
    case (Suc j)
    with Cons.prems have "xs ! j \<noteq> x" "index_of (xs ! j) xs = Some j"
      using Cons.IH by auto
    with Suc show ?thesis by simp
  qed
qed

lemma bs58_ALPHABET_distinct: "distinct bs58_ALPHABET"
  by (simp add: bs58_ALPHABET_def)

lemma length_bs58_ALPHABET: "length bs58_ALPHABET = 58"
  by (simp add: bs58_ALPHABET_def)

lemma those_map_Some: "(\<And>x. x \<in> set xs \<Longrightarrow> f x = Some (g x)) \<Longrightarrow> those (map f xs) = Some (map g xs)"
  by (induction xs) simp_all

lemma decode_digits:
  assumes "\<And>d. d \<in> set es \<Longrightarrow> d < 58"
  shows "those (map (\<lambda>c. index_of c bs58_ALPHABET) (map (\<lambda>d. bs58_ALPHABET ! d) es)) = Some es"
proof -
  have "those (map ((\<lambda>c. index_of c bs58_ALPHABET) \<circ> (\<lambda>d. bs58_ALPHABET ! d)) es)
      = Some (map (\<lambda>d. d) es)"
    by (rule those_map_Some)
      (simp add: index_of_nth bs58_ALPHABET_distinct length_bs58_ALPHABET assms)
  then show ?thesis by simp
qed

lemma bs58_decode_encode: "bs58_decode (bs58_encode buf) = Some buf"
proof -
  define ds where "ds = map unat buf"
  define k where "k = leading_zeros ds"
  define rest where "rest = dropWhile (\<lambda>d. d = 0) ds"
  define n where "n = from_digits 256 ds"
  define es where "es = replicate k 0 @ digits_of 58 n"
  have ds: "ds = replicate k 0 @ rest"
    unfolding k_def rest_def by (rule split_leading_zeros)
  have rest_lt: "\<forall>d \<in> set rest. d < 256"
  proof
    fix d assume "d \<in> set rest"
    then have "d \<in> set ds" unfolding rest_def by (rule set_dropWhileD)
    then obtain w :: byte where "d = unat w" unfolding ds_def by auto
    then show "d < 256" using unsigned_less [of w, where ?'a = nat] by simp
  qed
  have rest_hd: "rest = [] \<or> hd rest \<noteq> 0"
    unfolding rest_def by (rule hd_dropWhile_zero)
  have n: "n = from_digits 256 rest"
    unfolding n_def by (subst ds) (rule from_digits_zeros)
  have es_lt: "d < 58" if "d \<in> set es" for d
    using that digits_of_bound [of 58 d n] by (auto simp: es_def)
  have msd: "digits_of 58 n = [] \<or> hd (digits_of 58 n) \<noteq> 0"
    by (cases "n = 0") (simp_all add: hd_digits_of)
  have enc: "bs58_encode buf = map (\<lambda>d. bs58_ALPHABET ! d) es"
    by (simp add: bs58_encode_def es_def k_def n_def ds_def)
  have "those (map (\<lambda>c. index_of c bs58_ALPHABET) (bs58_encode buf)) = Some es"
    unfolding enc by (rule decode_digits) (rule es_lt)
  moreover have "leading_zeros es = k"
    unfolding es_def by (rule leading_zeros_replicate) (rule msd)
  moreover have "from_digits 58 es = n"
    by (simp add: es_def from_digits_zeros from_digits_of)
  moreover have "digits_of 256 n = rest"
    unfolding n by (rule digits_of_from [OF _ rest_lt rest_hd]) simp
  ultimately have "bs58_decode (bs58_encode buf) = Some (map word_of_nat (replicate k 0 @ rest))"
    by (simp add: bs58_decode_def)
  also have "map word_of_nat (replicate k 0 @ rest) = (map word_of_nat ds :: buffer)"
    using ds by simp
  also have "\<dots> = buf"
    by (simp add: ds_def map_idI)
  finally show ?thesis .
qed

lemma bs58_encode_zero: "bs58_encode (0 # buf) = CHR ''1'' # bs58_encode buf"
  by (simp add: bs58_encode_def leading_zeros_def from_digits_def bs58_ALPHABET_def)

lemma decode_address: "bs58_decode (address (generateAddress mem d)) = Some (spec_h5 d)"
  by (simp add: generateAddress_eq deriveAddress_def bs58_decode_encode)

lemma length_spec_h2: "length (spec_h2 d) = 21"
  by (simp add: spec_h2_def spec_h1_def)

lemma length_spec_checksum: "length (spec_checksum d) = 4"
  by (simp add: spec_checksum_def spec_h4_def)

lemma strip_spec_h5: "strip_checksum (spec_h5 d) = spec_h2 d"
  by (simp add: strip_checksum_def spec_h5_def length_spec_h2 length_spec_checksum)

lemma trailing_spec_h5: "trailing_checksum (spec_h5 d) = spec_checksum d"
  by (simp add: trailing_checksum_def spec_h5_def length_spec_h2 length_spec_checksum)

lemma verifyTimestamp_first:
  assumes "createJsonClient BLOCKCHAIN_HOST
             \<lparr>path = ''/address/'' @ address this @ ''?format=json'', retry = 0\<rparr>
             = (None, Some \<lparr>txs = Some (t # ts)\<rparr>)"
  shows "verifyTimestamp createJsonClient this = Done (Date (time t * 1000))"
  using assms by (simp add: verifyTimestamp_def array_sort_comparator)

subsection \<open>The digest of a file\<close>

lemma hash_update_twice: "hash_update (hash_update h a) b = hash_update h (a @ b)"
  by (simp add: hash_update_def)

lemma hash_update_nothing: "hash_digest (hash_update h []) = hash_digest h"
  by (simp add: hash_update_def hash_digest_def)

lemma emit_all_Done:
  "emit_all s h = Done d \<Longrightarrow>
     \<not> stream_fails s \<and> d = hash_digest (hash_update h (stream_bytes s))"
proof (induction s arbitrary: h)
  case (Data data rest)
  from Data.prems have "emit_all rest (hash_update h data) = Done d" by simp
  from Data.IH [OF this] show ?case by (simp add: hash_update_twice)
next
  case End
  then show ?case by (simp add: hash_update_nothing)
next
  case (Error e)
  then show ?case by simp
qed

lemma emit_all_fails: "stream_fails s \<Longrightarrow> \<exists>e. emit_all s h = Thrown e"
  by (induction s arbitrary: h) simp_all

lemma emit_all_not_Failed: "emit_all s h \<noteq> Failed e"
  by (induction s arbitrary: h) simp_all

text \<open>
  A digest that reaches the callback is the digest of the whole file, and the callback
  is never given an error.
\<close>

lemma sha256File_Done:
  "sha256File fs fileName = Done d \<Longrightarrow>
     \<not> stream_fails (fs fileName) \<and> d = crypto_SHA256 (stream_bytes (fs fileName))"
  by (auto simp: sha256File_def hash_digest_def hash_update_def createHash_def
      dest!: emit_all_Done)

lemma sha256File_fails:
  "stream_fails (fs fileName) \<Longrightarrow> \<exists>e. sha256File fs fileName = Thrown e"
  by (simp add: sha256File_def emit_all_fails)

lemma sha256File_not_Failed: "sha256File fs fileName \<noteq> Failed e"
  by (simp add: sha256File_def emit_all_not_Failed)

subsection \<open>The ways the command line ends\<close>

lemma main_without_verify:
  "fileName \<noteq> [] \<Longrightarrow> \<not> stream_fails (fs fileName) \<Longrightarrow>
     main mem fs createJsonClient help \<lparr>file = Some fileName, verify = False\<rparr> = Drained"
proof -
  assume f: "fileName \<noteq> []" and ok: "\<not> stream_fails (fs fileName)"
  have "\<exists>d. emit_all s h = Done d" if "\<not> stream_fails s" for s h
    using that by (induction s arbitrary: h) simp_all
  with ok obtain d where "sha256File fs fileName = Done d"
    unfolding sha256File_def by blast
  with f show ?thesis
    by (simp add: main_def cli_callback_def generateAddressForFile_def)
qed

lemma cli_callback_verify:
  "cli_callback createJsonClient \<lparr>file = f, verify = True\<rparr> (Done documentAddr) =
     (case verifyTimestamp createJsonClient documentAddr of
        Failed e \<Rightarrow> Exit 1 | Done d \<Rightarrow> Exit 0 | Thrown e \<Rightarrow> Uncaught e)"
  by (simp add: cli_callback_def)

lemma main_missing_file:
  "main mem fs createJsonClient None \<lparr>file = None, verify = v\<rparr> = Exit 1"
  "main mem fs createJsonClient (Some ended) \<lparr>file = None, verify = v\<rparr> = ended"
  by (simp_all add: main_def)

subsection \<open>Known values\<close>

text \<open>
  The digest of 32 zero octets and the empty buffer, step by step. The values on the
  right were computed with other implementations of the two digests and of base 58.
\<close>

lemma zero_h1: "spec_h1 (replicate 32 0) =
    [0xD1, 0xA7, 0x01, 0x26, 0xFF, 0x7A, 0x14, 0x9C, 0xA6, 0xF9, 0xB6, 0x38,
     0xDB, 0x08, 0x44, 0x80, 0x44, 0x0F, 0xF8, 0x42]"
  unfolding spec_h1_def by code_simp

lemma zero_h3: "crypto_SHA256 (0x00 #
    [0xD1, 0xA7, 0x01, 0x26, 0xFF, 0x7A, 0x14, 0x9C, 0xA6, 0xF9, 0xB6, 0x38,
     0xDB, 0x08, 0x44, 0x80, 0x44, 0x0F, 0xF8, 0x42]) =
    [0x34, 0x45, 0xE3, 0x97, 0x10, 0x97, 0xA9, 0x9B, 0x3F, 0x0C, 0xBF, 0x60,
     0xE2, 0xE2, 0x2F, 0x79, 0x97, 0xB7, 0x56, 0x40, 0xBA, 0x16, 0x4D, 0x82,
     0x97, 0x75, 0xEB, 0x98, 0x67, 0xBD, 0x4E, 0xE2]"
  by code_simp

lemma zero_h4: "crypto_SHA256
    [0x34, 0x45, 0xE3, 0x97, 0x10, 0x97, 0xA9, 0x9B, 0x3F, 0x0C, 0xBF, 0x60,
     0xE2, 0xE2, 0x2F, 0x79, 0x97, 0xB7, 0x56, 0x40, 0xBA, 0x16, 0x4D, 0x82,
     0x97, 0x75, 0xEB, 0x98, 0x67, 0xBD, 0x4E, 0xE2] =
    [0x8B, 0x7A, 0x9B, 0x6F, 0x0D, 0x47, 0x5E, 0x02, 0x65, 0x2C, 0x34, 0x61,
     0x48, 0x2A, 0xC2, 0x6E, 0x25, 0x56, 0x24, 0xA7, 0x4F, 0x0F, 0x4A, 0xF0,
     0x85, 0xBF, 0xF0, 0xDE, 0x40, 0x93, 0x19, 0x5D]"
  by code_simp

lemma zero_address: "bs58_encode
    [0x00, 0xD1, 0xA7, 0x01, 0x26, 0xFF, 0x7A, 0x14, 0x9C, 0xA6, 0xF9, 0xB6,
     0x38, 0xDB, 0x08, 0x44, 0x80, 0x44, 0x0F, 0xF8, 0x42, 0x8B, 0x7A, 0x9B,
     0x6F] =
    ''1L7YHmb2Qtk7MABJGhDfvmRLiLGGeZeMVY''"
  by (simp add: bs58_encode_def from_digits_def leading_zeros_def bs58_ALPHABET_def
      digits_of.simps)

lemma zero_trace:
  "spec_h2 (replicate 32 0) =
    [0x00, 0xD1, 0xA7, 0x01, 0x26, 0xFF, 0x7A, 0x14, 0x9C, 0xA6, 0xF9, 0xB6,
     0x38, 0xDB, 0x08, 0x44, 0x80, 0x44, 0x0F, 0xF8, 0x42]"
  "spec_h3 (replicate 32 0) =
    [0x34, 0x45, 0xE3, 0x97, 0x10, 0x97, 0xA9, 0x9B, 0x3F, 0x0C, 0xBF, 0x60,
     0xE2, 0xE2, 0x2F, 0x79, 0x97, 0xB7, 0x56, 0x40, 0xBA, 0x16, 0x4D, 0x82,
     0x97, 0x75, 0xEB, 0x98, 0x67, 0xBD, 0x4E, 0xE2]"
  "spec_h4 (replicate 32 0) =
    [0x8B, 0x7A, 0x9B, 0x6F, 0x0D, 0x47, 0x5E, 0x02, 0x65, 0x2C, 0x34, 0x61,
     0x48, 0x2A, 0xC2, 0x6E, 0x25, 0x56, 0x24, 0xA7, 0x4F, 0x0F, 0x4A, 0xF0,
     0x85, 0xBF, 0xF0, 0xDE, 0x40, 0x93, 0x19, 0x5D]"
  "spec_checksum (replicate 32 0) = [0x8B, 0x7A, 0x9B, 0x6F]"
  "spec_h5 (replicate 32 0) =
    [0x00, 0xD1, 0xA7, 0x01, 0x26, 0xFF, 0x7A, 0x14, 0x9C, 0xA6, 0xF9, 0xB6,
     0x38, 0xDB, 0x08, 0x44, 0x80, 0x44, 0x0F, 0xF8, 0x42, 0x8B, 0x7A, 0x9B,
     0x6F]"
  "deriveAddress (replicate 32 0) = ''1L7YHmb2Qtk7MABJGhDfvmRLiLGGeZeMVY''"
  by (simp_all add: spec_h2_def spec_h3_def spec_h4_def spec_checksum_def spec_h5_def
      deriveAddress_def zero_h1 zero_h3 zero_h4 zero_address)

lemma zero_hex:
  "toString_hex (replicate 32 0) =
    ''0000000000000000000000000000000000000000000000000000000000000000''"
  "toString_hex
    [0xD1, 0xA7, 0x01, 0x26, 0xFF, 0x7A, 0x14, 0x9C, 0xA6, 0xF9, 0xB6, 0x38,
     0xDB, 0x08, 0x44, 0x80, 0x44, 0x0F, 0xF8, 0x42] =
    ''d1a70126ff7a149ca6f9b638db084480440ff842''"
  "toString_hex
    [0x00, 0xD1, 0xA7, 0x01, 0x26, 0xFF, 0x7A, 0x14, 0x9C, 0xA6, 0xF9, 0xB6,
     0x38, 0xDB, 0x08, 0x44, 0x80, 0x44, 0x0F, 0xF8, 0x42] =
    ''00d1a70126ff7a149ca6f9b638db084480440ff842''"
  "toString_hex
    [0x34, 0x45, 0xE3, 0x97, 0x10, 0x97, 0xA9, 0x9B, 0x3F, 0x0C, 0xBF, 0x60,
     0xE2, 0xE2, 0x2F, 0x79, 0x97, 0xB7, 0x56, 0x40, 0xBA, 0x16, 0x4D, 0x82,
     0x97, 0x75, 0xEB, 0x98, 0x67, 0xBD, 0x4E, 0xE2] =
    ''3445e3971097a99b3f0cbf60e2e22f7997b75640ba164d829775eb9867bd4ee2''"
  "toString_hex
    [0x8B, 0x7A, 0x9B, 0x6F, 0x0D, 0x47, 0x5E, 0x02, 0x65, 0x2C, 0x34, 0x61,
     0x48, 0x2A, 0xC2, 0x6E, 0x25, 0x56, 0x24, 0xA7, 0x4F, 0x0F, 0x4A, 0xF0,
     0x85, 0xBF, 0xF0, 0xDE, 0x40, 0x93, 0x19, 0x5D] =
    ''8b7a9b6f0d475e02652c3461482ac26e255624a74f0f4af085bff0de4093195d''"
  "toString_hex [0x8B, 0x7A, 0x9B, 0x6F] = ''8b7a9b6f''"
  "toString_hex
    [0x00, 0xD1, 0xA7, 0x01, 0x26, 0xFF, 0x7A, 0x14, 0x9C, 0xA6, 0xF9, 0xB6,
     0x38, 0xDB, 0x08, 0x44, 0x80, 0x44, 0x0F, 0xF8, 0x42, 0x8B, 0x7A, 0x9B,
     0x6F] =
    ''00d1a70126ff7a149ca6f9b638db084480440ff8428b7a9b6f''"
  by code_simp+

lemma empty_h1: "spec_h1 [] =
    [0x9C, 0x11, 0x85, 0xA5, 0xC5, 0xE9, 0xFC, 0x54, 0x61, 0x28, 0x08, 0x97,
     0x7E, 0xE8, 0xF5, 0x48, 0xB2, 0x25, 0x8D, 0x31]"
  unfolding spec_h1_def by code_simp

lemma empty_h3: "crypto_SHA256 (0x00 #
    [0x9C, 0x11, 0x85, 0xA5, 0xC5, 0xE9, 0xFC, 0x54, 0x61, 0x28, 0x08, 0x97,
     0x7E, 0xE8, 0xF5, 0x48, 0xB2, 0x25, 0x8D, 0x31]) =
    [0x04, 0x09, 0xE5, 0xEC, 0xB2, 0x24, 0x40, 0x00, 0xF5, 0xE4, 0x52, 0x96,
     0xF5, 0x3E, 0x19, 0x7B, 0x4F, 0x64, 0x87, 0x94, 0x8B, 0x04, 0xBA, 0x87,
     0x03, 0x63, 0x78, 0x54, 0xDD, 0x4C, 0x30, 0x5F]"
  by code_simp

lemma empty_h4: "crypto_SHA256
    [0x04, 0x09, 0xE5, 0xEC, 0xB2, 0x24, 0x40, 0x00, 0xF5, 0xE4, 0x52, 0x96,
     0xF5, 0x3E, 0x19, 0x7B, 0x4F, 0x64, 0x87, 0x94, 0x8B, 0x04, 0xBA, 0x87,
     0x03, 0x63, 0x78, 0x54, 0xDD, 0x4C, 0x30, 0x5F] =
    [0x82, 0xC2, 0x06, 0x27, 0x5F, 0xBB, 0x45, 0xF5, 0xB8, 0x9C, 0xB7, 0x6C,
     0x29, 0x04, 0xA6, 0xFA, 0x5B, 0xF2, 0xE9, 0xD8, 0x48, 0x75, 0xB7, 0x05,
     0xBB, 0x8D, 0x96, 0x3C, 0x31, 0xC4, 0xDD, 0xB9]"
  by code_simp

lemma empty_address: "bs58_encode
    [0x00, 0x9C, 0x11, 0x85, 0xA5, 0xC5, 0xE9, 0xFC, 0x54, 0x61, 0x28, 0x08,
     0x97, 0x7E, 0xE8, 0xF5, 0x48, 0xB2, 0x25, 0x8D, 0x31, 0x82, 0xC2, 0x06,
     0x27] =
    ''1FEDQP2D5zmpRXRG5zQn7vYVs4JVHinjEv''"
  by (simp add: bs58_encode_def from_digits_def leading_zeros_def bs58_ALPHABET_def
      digits_of.simps)

lemma empty_trace:
  "spec_h2 [] =
    [0x00, 0x9C, 0x11, 0x85, 0xA5, 0xC5, 0xE9, 0xFC, 0x54, 0x61, 0x28, 0x08,
     0x97, 0x7E, 0xE8, 0xF5, 0x48, 0xB2, 0x25, 0x8D, 0x31]"
  "spec_h3 [] =
    [0x04, 0x09, 0xE5, 0xEC, 0xB2, 0x24, 0x40, 0x00, 0xF5, 0xE4, 0x52, 0x96,
     0xF5, 0x3E, 0x19, 0x7B, 0x4F, 0x64, 0x87, 0x94, 0x8B, 0x04, 0xBA, 0x87,
     0x03, 0x63, 0x78, 0x54, 0xDD, 0x4C, 0x30, 0x5F]"
  "spec_h4 [] =
    [0x82, 0xC2, 0x06, 0x27, 0x5F, 0xBB, 0x45, 0xF5, 0xB8, 0x9C, 0xB7, 0x6C,
     0x29, 0x04, 0xA6, 0xFA, 0x5B, 0xF2, 0xE9, 0xD8, 0x48, 0x75, 0xB7, 0x05,
     0xBB, 0x8D, 0x96, 0x3C, 0x31, 0xC4, 0xDD, 0xB9]"
  "spec_checksum [] = [0x82, 0xC2, 0x06, 0x27]"
  "spec_h5 [] =
    [0x00, 0x9C, 0x11, 0x85, 0xA5, 0xC5, 0xE9, 0xFC, 0x54, 0x61, 0x28, 0x08,
     0x97, 0x7E, 0xE8, 0xF5, 0x48, 0xB2, 0x25, 0x8D, 0x31, 0x82, 0xC2, 0x06,
     0x27]"
  "deriveAddress [] = ''1FEDQP2D5zmpRXRG5zQn7vYVs4JVHinjEv''"
  by (simp_all add: spec_h2_def spec_h3_def spec_h4_def spec_checksum_def spec_h5_def
      deriveAddress_def empty_h1 empty_h3 empty_h4 empty_address)

section \<open>The claims\<close>

text \<open>
  C1. For a ledger response with transactions, \<open>verifyTimestamp\<close> is claimed to return
  the minimum time among them, as a timestamp; for the times 500, 100, 300 that is the
  timestamp of 100. The comparator compares the transactions, not their times, and
  changes no order: the result is the timestamp of the first transaction of the
  response, here of 500.
\<close>

theorem verifyTimestamp_takes_first:
  "verifyTimestamp
     (\<lambda>url r. (None, Some \<lparr>txs = Some [\<lparr>time = 500\<rparr>, \<lparr>time = 100\<rparr>, \<lparr>time = 300\<rparr>]\<rparr>))
     (generateAddress (\<lambda>i. 0) (replicate 32 0))
   = Done (Date 500000)
   \<and> verifyTimestamp
     (\<lambda>url r. (None, Some \<lparr>txs = Some [\<lparr>time = 500\<rparr>, \<lparr>time = 100\<rparr>, \<lparr>time = 300\<rparr>]\<rparr>))
     (generateAddress (\<lambda>i. 0) (replicate 32 0))
   \<noteq> Done (Date 100000)"
  by (simp add: verifyTimestamp_def array_sort_comparator)

text \<open>
  C2. A path that cannot be opened, and a read that fails after some chunks, are claimed
  to reach the callback as an error. The stream has no listener for \<open>'error'\<close>: the error
  is thrown by the emitter and the callback never runs, neither with an error nor with
  a digest.
\<close>

theorem sha256File_error_is_thrown:
  "sha256File (\<lambda>p. Error (Error_object ''ENOENT'')) ''missing.txt''
     = Thrown (Error_object ''ENOENT'')
   \<and> sha256File (\<lambda>p. Data [1, 2, 3] (Error (Error_object ''EIO''))) ''broken.bin''
     = Thrown (Error_object ''EIO'')
   \<and> generateAddressForFile (\<lambda>i. 0) (\<lambda>p. Error (Error_object ''ENOENT'')) ''missing.txt''
     = Thrown (Error_object ''ENOENT'')
   \<and> sha256File fs fileName \<noteq> Failed e"
  by (simp add: sha256File_def generateAddressForFile_def emit_all_not_Failed)

text \<open>
  C3. \<open>generateAddress\<close> is the reference pipeline: RIPEMD-160 of the digest, the version
  byte in front, SHA-256 twice, the first four octets of that as the checksum behind,
  base 58 of the whole; and the trace holds every intermediate value in hexadecimal.
  For the digest of 32 zero octets every field of the trace is the reference value
  computed on its own.
\<close>

theorem generateAddress_reference_pipeline:
  "address (generateAddress mem d) =
     bs58_encode ((0x00 # crypto_RIPEMD160 d)
        @ take 4 (crypto_SHA256 (crypto_SHA256 (0x00 # crypto_RIPEMD160 d))))
   \<and> generateAddress mem d =
     \<lparr>address = deriveAddress d, sha256 = toString_hex d,
      detail = \<lparr>documentSHA256 = toString_hex d,
                hash3 = toString_hex (spec_h1 d),
                hash4 = toString_hex (spec_h2 d),
                hash5 = toString_hex (spec_h3 d),
                hash6 = toString_hex (spec_h4 d),
                checksum = toString_hex (spec_checksum d),
                hashWithChecksum = toString_hex (spec_h5 d),
                base58Encode = deriveAddress d\<rparr>\<rparr>
   \<and> generateAddress mem (replicate 32 0) =
     \<lparr>address = ''1L7YHmb2Qtk7MABJGhDfvmRLiLGGeZeMVY'',
      sha256 = ''0000000000000000000000000000000000000000000000000000000000000000'',
      detail = \<lparr>documentSHA256 = ''0000000000000000000000000000000000000000000000000000000000000000'',
                hash3 = ''d1a70126ff7a149ca6f9b638db084480440ff842'',
                hash4 = ''00d1a70126ff7a149ca6f9b638db084480440ff842'',
                hash5 = ''3445e3971097a99b3f0cbf60e2e22f7997b75640ba164d829775eb9867bd4ee2'',
                hash6 = ''8b7a9b6f0d475e02652c3461482ac26e255624a74f0f4af085bff0de4093195d'',
                checksum = ''8b7a9b6f'',
                hashWithChecksum = ''00d1a70126ff7a149ca6f9b638db084480440ff8428b7a9b6f'',
                base58Encode = ''1L7YHmb2Qtk7MABJGhDfvmRLiLGGeZeMVY''\<rparr>\<rparr>"
proof (intro conjI)
  show "address (generateAddress mem d) =
     bs58_encode ((0x00 # crypto_RIPEMD160 d)
        @ take 4 (crypto_SHA256 (crypto_SHA256 (0x00 # crypto_RIPEMD160 d))))"
    by (simp add: generateAddress_eq deriveAddress_def spec_h5_def spec_checksum_def
        spec_h4_def spec_h3_def spec_h2_def spec_h1_def)
  show "generateAddress mem d =
     \<lparr>address = deriveAddress d, sha256 = toString_hex d,
      detail = \<lparr>documentSHA256 = toString_hex d,
                hash3 = toString_hex (spec_h1 d),
                hash4 = toString_hex (spec_h2 d),
                hash5 = toString_hex (spec_h3 d),
                hash6 = toString_hex (spec_h4 d),
                checksum = toString_hex (spec_checksum d),
                hashWithChecksum = toString_hex (spec_h5 d),
                base58Encode = deriveAddress d\<rparr>\<rparr>"
    by (rule generateAddress_eq)
  show "generateAddress mem (replicate 32 0) =
     \<lparr>address = ''1L7YHmb2Qtk7MABJGhDfvmRLiLGGeZeMVY'',
      sha256 = ''0000000000000000000000000000000000000000000000000000000000000000'',
      detail = \<lparr>documentSHA256 = ''0000000000000000000000000000000000000000000000000000000000000000'',
                hash3 = ''d1a70126ff7a149ca6f9b638db084480440ff842'',
                hash4 = ''00d1a70126ff7a149ca6f9b638db084480440ff842'',
                hash5 = ''3445e3971097a99b3f0cbf60e2e22f7997b75640ba164d829775eb9867bd4ee2'',
                hash6 = ''8b7a9b6f0d475e02652c3461482ac26e255624a74f0f4af085bff0de4093195d'',
                checksum = ''8b7a9b6f'',
                hashWithChecksum = ''00d1a70126ff7a149ca6f9b638db084480440ff8428b7a9b6f'',
                base58Encode = ''1L7YHmb2Qtk7MABJGhDfvmRLiLGGeZeMVY''\<rparr>\<rparr>"
    unfolding generateAddress_eq zero_trace zero_h1 zero_hex by (rule refl)
qed


text \<open>
  C5. The decoded address without its four trailing checksum octets has 21 octets, and
  the first of them is the version byte \<open>0x00\<close>.
\<close>

theorem generateAddress_version_byte_first:
  "\<exists>raw. bs58_decode (address (generateAddress mem d)) = Some raw
     \<and> length (strip_checksum raw) = 21
     \<and> strip_checksum raw ! 0 = 0x00"
  by (simp add: decode_address strip_spec_h5 length_spec_h2) (simp add: spec_h2_def)

text \<open>
  C6. Address derivation is deterministic: two runs on the same digest give the same
  address, the same \<open>sha256\<close> field and the same trace, whatever the memory of the
  buffers held before.
\<close>

theorem generateAddress_deterministic:
  "generateAddress mem1 d = generateAddress mem2 d
   \<and> address (generateAddress mem1 d) = address (generateAddress mem2 d)
   \<and> sha256 (generateAddress mem1 d) = sha256 (generateAddress mem2 d)
   \<and> detail (generateAddress mem1 d) = detail (generateAddress mem2 d)"
  by (simp add: generateAddress_eq)

text \<open>
  C7. A response that parses and holds no transaction makes \<open>verifyTimestamp\<close> fail
  with the string \<open>Address not seen in the network\<close>: no exception and no timestamp.
  A failure that the client reports through \<open>err\<close> fails with the client's error
  object, which a caller tells from the string. A reply with no \<open>err\<close> and with no
  data, or with data that has no list of transactions, as a body that does not parse
  gives, fails with the same string as the empty list: the guard in front of the sort
  takes the three for one.
\<close>

theorem verifyTimestamp_not_seen:
  assumes "seen_none BLOCKCHAIN_HOST
             \<lparr>path = ''/address/'' @ address this @ ''?format=json'', retry = 0\<rparr>
             = (None, Some \<lparr>txs = Some []\<rparr>)"
    and "reported BLOCKCHAIN_HOST
             \<lparr>path = ''/address/'' @ address this @ ''?format=json'', retry = 0\<rparr>
             = (Some e, data)"
    and "no_list BLOCKCHAIN_HOST
             \<lparr>path = ''/address/'' @ address this @ ''?format=json'', retry = 0\<rparr>
             = (None, Some \<lparr>txs = None\<rparr>)"
    and "no_data BLOCKCHAIN_HOST
             \<lparr>path = ''/address/'' @ address this @ ''?format=json'', retry = 0\<rparr>
             = (None, None)"
  shows "verifyTimestamp seen_none this = Failed (Str ''Address not seen in the network'')
    \<and> verifyTimestamp reported this = Failed (Obj e)
    \<and> verifyTimestamp seen_none this \<noteq> verifyTimestamp reported this
    \<and> verifyTimestamp no_list this = verifyTimestamp seen_none this
    \<and> verifyTimestamp no_data this = verifyTimestamp seen_none this"
  using assms by (simp add: verifyTimestamp_def)

theorem verifyTimestamp_not_seen_witness:
  "verifyTimestamp (\<lambda>url r. (None, Some \<lparr>txs = Some []\<rparr>)) (generateAddress (\<lambda>i. 0) [])
     = Failed (Str ''Address not seen in the network'')
   \<and> verifyTimestamp (\<lambda>url r. (Some (Error_object ''ECONNREFUSED''), None))
        (generateAddress (\<lambda>i. 0) [])
     = Failed (Obj (Error_object ''ECONNREFUSED''))
   \<and> verifyTimestamp (\<lambda>url r. (None, Some \<lparr>txs = Some []\<rparr>)) (generateAddress (\<lambda>i. 0) [])
     \<noteq> verifyTimestamp (\<lambda>url r. (Some (Error_object ''ECONNREFUSED''), None))
         (generateAddress (\<lambda>i. 0) [])
   \<and> verifyTimestamp (\<lambda>url r. (None, Some \<lparr>txs = None\<rparr>)) (generateAddress (\<lambda>i. 0) [])
     = verifyTimestamp (\<lambda>url r. (None, Some \<lparr>txs = Some []\<rparr>))
         (generateAddress (\<lambda>i. 0) [])
   \<and> verifyTimestamp (\<lambda>url r. (None, None)) (generateAddress (\<lambda>i. 0) [])
     = verifyTimestamp (\<lambda>url r. (None, Some \<lparr>txs = Some []\<rparr>))
         (generateAddress (\<lambda>i. 0) [])"
  using verifyTimestamp_not_seen
    [of "\<lambda>url r. (None, Some \<lparr>txs = Some []\<rparr>)" "generateAddress (\<lambda>i. 0) []"
        "\<lambda>url r. (Some (Error_object ''ECONNREFUSED''), None)" "Error_object ''ECONNREFUSED''" None
        "\<lambda>url r. (None, Some \<lparr>txs = None\<rparr>)" "\<lambda>url r. (None, None)"]
  by simp

text \<open>
  As claimed, the error of the empty list would differ from the error of every failure
  of the transport and of the parsing. It does not: for a body that is not JSON, which
  reaches the callback with no \<open>err\<close> and with data that has no list of transactions,
  and for a reply with no data at all, the error is the very string of the empty list.
\<close>

theorem verifyTimestamp_not_seen_counterexample:
  "verifyTimestamp (\<lambda>url r. (None, Some \<lparr>txs = None\<rparr>)) (generateAddress (\<lambda>i. 0) [])
     = Failed (Str ''Address not seen in the network'')
   \<and> verifyTimestamp (\<lambda>url r. (None, None)) (generateAddress (\<lambda>i. 0) [])
     = Failed (Str ''Address not seen in the network'')
   \<and> verifyTimestamp (\<lambda>url r. (None, Some \<lparr>txs = Some []\<rparr>)) (generateAddress (\<lambda>i. 0) [])
     = Failed (Str ''Address not seen in the network'')
   \<and> \<not> (verifyTimestamp (\<lambda>url r. (None, Some \<lparr>txs = None\<rparr>)) (generateAddress (\<lambda>i. 0) [])
          \<noteq> verifyTimestamp (\<lambda>url r. (None, Some \<lparr>txs = Some []\<rparr>))
              (generateAddress (\<lambda>i. 0) []))"
  by (simp add: verifyTimestamp_def)

text \<open>
  C8. The command line is claimed to end with status 1 on every failure. Without
  \<open>--file\<close> the help of \<open>commander\<close> ends the process with status 0 before
  \<open>process.exit(1)\<close> is reached, and an error passed by \<open>generateAddressForFile\<close> is
  printed and followed by a plain \<open>return\<close>, so that the process ends with status 0.
\<close>

theorem main_failure_status_zero:
  "exit_code (main (\<lambda>i. 0) (\<lambda>p. End) (\<lambda>url r. (None, None)) commander_help
               \<lparr>file = None, verify = False\<rparr>) = 0
   \<and> exit_code (cli_callback (\<lambda>url r. (None, None)) \<lparr>file = Some ''doc.pdf'', verify = True\<rparr>
                  (Failed (Obj (Error_object ''ENOENT'')))) = 0"
  by (simp add: main_def commander_help_def cli_callback_def)

text \<open>
  C9. A derived address begins with the character \<open>1\<close>, which is how base 58 writes
  the leading zero octet that the version byte is.
\<close>

theorem generateAddress_starts_with_1:
  "\<exists>rest. address (generateAddress mem d) = CHR ''1'' # rest"
  by (simp add: generateAddress_eq deriveAddress_def spec_h5_def spec_h2_def bs58_encode_zero)

text \<open>
  C10. \<open>generateAddress\<close> does not look at the length of its input. For a buffer of
  any length it returns an address whose decoded form has 25 octets: the version byte,
  the RIPEMD-160 of the octets given, and the checksum of these 21. The empty buffer
  has the address \<open>1FEDQP2D5zmpRXRG5zQn7vYVs4JVHinjEv\<close>.
\<close>

theorem generateAddress_any_length:
  "(\<exists>raw. bs58_decode (address (generateAddress mem buf)) = Some raw
      \<and> length raw = 25
      \<and> raw = (0x00 # crypto_RIPEMD160 buf)
               @ take 4 (crypto_SHA256 (crypto_SHA256 (0x00 # crypto_RIPEMD160 buf))))
   \<and> hash3 (detail (generateAddress mem buf)) = toString_hex (crypto_RIPEMD160 buf)
   \<and> checksum_valid (address (generateAddress mem buf))
   \<and> address (generateAddress mem []) = ''1FEDQP2D5zmpRXRG5zQn7vYVs4JVHinjEv''"
proof (intro conjI)
  have "length (spec_h5 buf) = 25"
    by (simp add: spec_h5_def length_spec_h2 length_spec_checksum)
  moreover have "spec_h5 buf = (0x00 # crypto_RIPEMD160 buf)
      @ take 4 (crypto_SHA256 (crypto_SHA256 (0x00 # crypto_RIPEMD160 buf)))"
    by (simp add: spec_h5_def spec_checksum_def spec_h4_def spec_h3_def spec_h2_def
        spec_h1_def)
  ultimately show "\<exists>raw. bs58_decode (address (generateAddress mem buf)) = Some raw
      \<and> length raw = 25
      \<and> raw = (0x00 # crypto_RIPEMD160 buf)
               @ take 4 (crypto_SHA256 (crypto_SHA256 (0x00 # crypto_RIPEMD160 buf)))"
    by (simp add: decode_address)
  show "hash3 (detail (generateAddress mem buf)) = toString_hex (crypto_RIPEMD160 buf)"
    by (simp add: generateAddress_eq spec_h1_def)
  show "checksum_valid (address (generateAddress mem buf))"
    by (simp add: checksum_valid_def decode_address strip_spec_h5 trailing_spec_h5
        spec_checksum_def spec_h4_def spec_h3_def)
  show "address (generateAddress mem []) = ''1FEDQP2D5zmpRXRG5zQn7vYVs4JVHinjEv''"
    by (simp add: generateAddress_eq empty_trace)
qed

end
